theory Spec2Isabelle
  imports Complex_Main
begin

section \<open>JavaScript values\<close>

text \<open>
  The server in \<^verbatim>\<open>src/backend/server.js\<close> handles values that come out of
  \<^verbatim>\<open>JSON.parse\<close> (request bodies through \<^verbatim>\<open>express.json()\<close>, upstream payloads
  through \<^verbatim>\<open>response.json()\<close>) and the value \<^verbatim>\<open>undefined\<close> that reading an absent
  property yields. A number is represented by the exact value of the double
  (\<^verbatim>\<open>-0\<close> is \<open>JNum 0\<close>: both are falsy and print as \<^verbatim>\<open>0\<close>); a literal that overflows
  parses to an infinity. \<^verbatim>\<open>NaN\<close> is not a result of \<^verbatim>\<open>JSON.parse\<close> and the source does
  no arithmetic, so it is not a value here. An object is the list of its own properties;
  the first binding of a key is the property's value.
\<close>

datatype jsval =
    JUndefined
  | JNull
  | JBool bool
  | JNum rat
  | JInfinity bool
  | JStr string
  | JArr "jsval list"
  | JObj "(string \<times> jsval) list"

text \<open>\<^verbatim>\<open>!v\<close> is \<open>\<not> truthy v\<close>.\<close>

fun truthy :: "jsval \<Rightarrow> bool" where
  "truthy JUndefined = False"
| "truthy JNull = False"
| "truthy (JBool b) = b"
| "truthy (JNum r) = (r \<noteq> 0)"
| "truthy (JInfinity positive) = True"
| "truthy (JStr s) = (s \<noteq> [])"
| "truthy (JArr xs) = True"
| "truthy (JObj fs) = True"

definition nullish :: "jsval \<Rightarrow> bool" where
  "nullish v = (v = JUndefined \<or> v = JNull)"

text \<open>
  The exceptions of the source: \<^verbatim>\<open>new Error(text)\<close> thrown by the source itself, a
  \<^verbatim>\<open>TypeError\<close> raised by the engine, a rejection of \<^verbatim>\<open>fetch\<close>, and a rejection of
  \<^verbatim>\<open>response.json()\<close>. The text of an engine's \<^verbatim>\<open>TypeError\<close> is the engine's, so such an
  error carries its cause and the text is a parameter (\<open>typeErrorMessage\<close> below).
\<close>

datatype cause =
    ReadOfNullish jsval string
  | NotAFunction string
  | NoPrimitive

datatype js_error =
    Error string
  | TypeError cause
  | FetchError string
  | BodyError string

text \<open>
  \<open>property v k\<close> is \<^verbatim>\<open>v.k\<close> for a \<open>v\<close> that is neither \<^verbatim>\<open>null\<close> nor \<^verbatim>\<open>undefined\<close>. The source
  reads data properties only under names that no prototype defines (\<^verbatim>\<open>email\<close>, \<^verbatim>\<open>amount\<close>,
  \<^verbatim>\<open>status\<close>, \<^verbatim>\<open>data\<close>, \<^verbatim>\<open>links\<close>, \<^verbatim>\<open>rel\<close>, ...), so a primitive or an array has none of
  them. \<open>get\<close> is the plain read \<^verbatim>\<open>v.k\<close>, which throws on \<^verbatim>\<open>null\<close> and \<^verbatim>\<open>undefined\<close> (so
  does destructuring \<^verbatim>\<open>const { k } = v\<close>); \<open>opt_get\<close> is \<^verbatim>\<open>v?.k\<close>.
\<close>

fun property :: "jsval \<Rightarrow> string \<Rightarrow> jsval" where
  "property (JObj fs) k = (case map_of fs k of Some v \<Rightarrow> v | None \<Rightarrow> JUndefined)"
| "property v k = JUndefined"

definition get :: "jsval \<Rightarrow> string \<Rightarrow> js_error + jsval" where
  "get v k = (if nullish v then Inl (TypeError (ReadOfNullish v k)) else Inr (property v k))"

definition opt_get :: "jsval \<Rightarrow> string \<Rightarrow> jsval" where
  "opt_get v k = (if nullish v then JUndefined else property v k)"

text \<open>
  The functions of the platform that the source calls and that are not part of it:
  the decimal text of a finite number, \<^verbatim>\<open>Buffer.from(s).toString('base64')\<close>, and the
  message text of an engine-raised \<^verbatim>\<open>TypeError\<close>.
\<close>

record builtins =
  numberToString :: "rat \<Rightarrow> string"
  base64 :: "string \<Rightarrow> string"
  typeErrorMessage :: "cause \<Rightarrow> string"

text \<open>\<^verbatim>\<open>error.message\<close>.\<close>

fun message :: "builtins \<Rightarrow> js_error \<Rightarrow> string" where
  "message rt (Error m) = m"
| "message rt (TypeError c) = typeErrorMessage rt c"
| "message rt (FetchError m) = m"
| "message rt (BodyError m) = m"

text \<open>
  \<open>ToString\<close> is the conversion a template literal \<^verbatim>\<open>`${v}`\<close> applies. An array is joined
  with commas, \<^verbatim>\<open>null\<close> and \<^verbatim>\<open>undefined\<close> elements printing as the empty string. A plain
  object prints as \<^verbatim>\<open>[object Object]\<close> through \<^verbatim>\<open>Object.prototype.toString\<close>, unless it has
  an own property \<^verbatim>\<open>toString\<close>: coming from JSON that property is not callable, and neither
  it nor \<^verbatim>\<open>valueOf\<close> then yields a primitive.
\<close>

fun join :: "string list \<Rightarrow> string" where
  "join [] = []"
| "join [s] = s"
| "join (s # t # ss) = s @ '','' @ join (t # ss)"

fun ToString :: "(rat \<Rightarrow> string) \<Rightarrow> jsval \<Rightarrow> js_error + string"
  and elements :: "(rat \<Rightarrow> string) \<Rightarrow> jsval list \<Rightarrow> js_error + string list" where
  "ToString nts JUndefined = Inr ''undefined''"
| "ToString nts JNull = Inr ''null''"
| "ToString nts (JBool b) = Inr (if b then ''true'' else ''false'')"
| "ToString nts (JNum r) = Inr (nts r)"
| "ToString nts (JInfinity positive) = Inr (if positive then ''Infinity'' else ''-Infinity'')"
| "ToString nts (JStr s) = Inr s"
| "ToString nts (JArr xs) =
     (case elements nts xs of Inl e \<Rightarrow> Inl e | Inr ss \<Rightarrow> Inr (join ss))"
| "ToString nts (JObj fs) =
     (if map_of fs ''toString'' = None then Inr ''[object Object]''
      else Inl (TypeError NoPrimitive))"
| "elements nts [] = Inr []"
| "elements nts (x # xs) =
     (case (if nullish x then Inr [] else ToString nts x) of
        Inl e \<Rightarrow> Inl e
      | Inr s \<Rightarrow> (case elements nts xs of Inl e \<Rightarrow> Inl e | Inr ss \<Rightarrow> Inr (s # ss)))"

text \<open>
  The method call \<^verbatim>\<open>v.toString()\<close>, \<open>expr\<close> being the text of the callee. It differs from
  \<open>ToString\<close> on \<^verbatim>\<open>null\<close> and \<^verbatim>\<open>undefined\<close> (the read of the method throws) and in the
  error for an object whose own \<^verbatim>\<open>toString\<close> is not callable.
\<close>

definition toString_call :: "(rat \<Rightarrow> string) \<Rightarrow> string \<Rightarrow> jsval \<Rightarrow> js_error + string" where
  "toString_call nts expr v =
     (if nullish v then Inl (TypeError (ReadOfNullish v ''toString''))
      else (case v of
        JObj fs \<Rightarrow>
          (if map_of fs ''toString'' = None then Inr ''[object Object]''
           else Inl (TypeError (NotAFunction expr)))
      | _ \<Rightarrow> ToString nts v))"

section \<open>Configuration\<close>

text \<open>
  Lines 12-15 of the source: the secrets are read from the environment once, each a
  string or \<^verbatim>\<open>undefined\<close>. In a template literal \<^verbatim>\<open>undefined\<close> prints as its name.
\<close>

record env =
  PAYSTACK_SECRET_KEY :: "string option"
  PAYPAL_CLIENT_ID :: "string option"
  PAYPAL_CLIENT_SECRET :: "string option"
  env_PAYPAL_BASE_URL :: "string option"

definition interpolate :: "string option \<Rightarrow> string" where
  "interpolate v = (case v of None \<Rightarrow> ''undefined'' | Some s \<Rightarrow> s)"

text \<open>\<^verbatim>\<open>process.env.PAYPAL_BASE_URL || "https://api-m.sandbox.paypal.com"\<close>.\<close>

definition PAYPAL_BASE_URL :: "env \<Rightarrow> string" where
  "PAYPAL_BASE_URL cfg =
     (case env_PAYPAL_BASE_URL cfg of
        None \<Rightarrow> ''https://api-m.sandbox.paypal.com''
      | Some s \<Rightarrow> (if s = [] then ''https://api-m.sandbox.paypal.com'' else s))"

section \<open>The network\<close>

text \<open>
  A call \<^verbatim>\<open>fetch(url, options)\<close> is a \<open>request\<close>; the body is the text given, or the
  value whose \<^verbatim>\<open>JSON.stringify\<close> is given. The upstream (the HTTP client library and the
  provider behind it) answers a request, knowing the requests this process has made
  before: \<^verbatim>\<open>fetch\<close> rejects with a message, or resolves to a response with a status
  code whose \<^verbatim>\<open>json()\<close> rejects with a message or resolves to the parsed payload.
  Every call is recorded in \<open>calls\<close>, the list of the requests made so far, oldest first.
  The source sets no timeout: an upstream that never answers leaves the route without an
  answer, and is not among the replies here. The \<^verbatim>\<open>console.error\<close> lines of the source
  write to the process log only and are left out.
\<close>

datatype content = NoBody | Form string | Json jsval

record request =
  url :: string
  http_method :: string
  headers :: "(string \<times> string) list"
  body :: content

datatype parsed = NotJson string | Parsed jsval

datatype reply = Rejects string | Responds nat parsed

type_synonym upstream = "request list \<Rightarrow> request \<Rightarrow> reply"

text \<open>\<^verbatim>\<open>response.ok\<close>: the status is in the range 200-299.\<close>

definition ok :: "nat \<Rightarrow> bool" where
  "ok st = (200 \<le> st \<and> st \<le> 299)"

text \<open>
  \<^verbatim>\<open>const response = await fetch(...); const data = await response.json();\<close>, the two
  awaits that every route of the source performs back to back: the result is the
  response's status and the parsed payload.
\<close>

definition fetch_json ::
  "upstream \<Rightarrow> request list \<Rightarrow> request \<Rightarrow> (js_error + nat \<times> jsval) \<times> request list" where
  "fetch_json net calls rq =
     (case net calls rq of
        Rejects m \<Rightarrow> (Inl (FetchError m), calls @ [rq])
      | Responds st (NotJson m) \<Rightarrow> (Inl (BodyError m), calls @ [rq])
      | Responds st (Parsed d) \<Rightarrow> (Inr (st, d), calls @ [rq]))"

text \<open>
  What a route answers: \<^verbatim>\<open>res.status(s).json(v)\<close>, with status 200 when the source sets
  none. \<open>json\<close> is the value handed to \<^verbatim>\<open>res.json\<close>.
\<close>

record http_response =
  status :: nat
  json :: jsval

section \<open>Token acquisition\<close>

definition token_request :: "builtins \<Rightarrow> env \<Rightarrow> request" where
  "token_request rt cfg =
     \<lparr>url = PAYPAL_BASE_URL cfg @ ''/v1/oauth2/token'',
      http_method = ''POST'',
      headers =
        [(''Authorization'',
          ''Basic '' @ base64 rt (interpolate (PAYPAL_CLIENT_ID cfg) @ '':'' @
                                 interpolate (PAYPAL_CLIENT_SECRET cfg))),
         (''Content-Type'', ''application/x-www-form-urlencoded'')],
      body = Form ''grant_type=client_credentials''\<rparr>"

text \<open>
  \<^verbatim>\<open>getPayPalAccessToken\<close> (lines 27-50). The \<^verbatim>\<open>catch\<close> logs and rethrows, so an error
  of the body is the error of the function.
\<close>

definition getPayPalAccessToken ::
  "builtins \<Rightarrow> env \<Rightarrow> upstream \<Rightarrow> request list \<Rightarrow> (js_error + jsval) \<times> request list" where
  "getPayPalAccessToken rt cfg net calls =
     (case fetch_json net calls (token_request rt cfg) of
        (Inl e, calls') \<Rightarrow> (Inl e, calls')
      | (Inr (st, data), calls') \<Rightarrow>
          if \<not> ok st then
            (case get data ''error_description'' of
               Inl e \<Rightarrow> (Inl e, calls')
             | Inr d \<Rightarrow>
                 (case (if truthy d then ToString (numberToString rt) d
                        else Inr ''Unknown error'') of
                    Inl e \<Rightarrow> (Inl e, calls')
                  | Inr s \<Rightarrow> (Inl (Error (''PayPal auth failed: '' @ s)), calls')))
          else (get data ''access_token'', calls'))"

section \<open>The direct-charge routes\<close>

definition initialize_request :: "env \<Rightarrow> jsval \<Rightarrow> jsval \<Rightarrow> request" where
  "initialize_request cfg email amount =
     \<lparr>url = ''https://api.paystack.co/transaction/initialize'',
      http_method = ''POST'',
      headers =
        [(''Authorization'', ''Bearer '' @ interpolate (PAYSTACK_SECRET_KEY cfg)),
         (''Content-Type'', ''application/json'')],
      body = Json (JObj [(''email'', email), (''amount'', amount),
                         (''callback_url'', JStr ''https://remboglow.com/'')])\<rparr>"

text \<open>The \<^verbatim>\<open>try\<close> block of \<^verbatim>\<open>POST /api/paystack/pay\<close> (lines 57-83). Destructuring
  \<^verbatim>\<open>req.body\<close> throws when it is \<^verbatim>\<open>null\<close> or \<^verbatim>\<open>undefined\<close>.\<close>

definition paystack_pay_try ::
  "env \<Rightarrow> upstream \<Rightarrow> request list \<Rightarrow> jsval \<Rightarrow> (js_error + http_response) \<times> request list" where
  "paystack_pay_try cfg net calls req_body =
     (if nullish req_body then (Inl (TypeError (ReadOfNullish req_body ''email'')), calls)
      else
        (let email = property req_body ''email'';
             amount = property req_body ''amount''
         in
          if \<not> truthy email \<or> \<not> truthy amount then
            (Inr \<lparr>status = 400,
                  json = JObj [(''error'', JStr ''Email and amount are required'')]\<rparr>, calls)
          else
            (case fetch_json net calls (initialize_request cfg email amount) of
               (Inl e, calls') \<Rightarrow> (Inl e, calls')
             | (Inr (st, data), calls') \<Rightarrow>
                 (case get data ''status'' of
                    Inl e \<Rightarrow> (Inl e, calls')
                  | Inr flag \<Rightarrow>
                      if \<not> truthy flag then
                        (Inr \<lparr>status = 400,
                              json = JObj [(''error'', JStr ''Payment initialization failed''),
                                           (''details'', data)]\<rparr>, calls')
                      else (Inr \<lparr>status = 200, json = data\<rparr>, calls')))))"

text \<open>The route with its \<^verbatim>\<open>catch\<close> (lines 84-87).\<close>

definition paystack_pay ::
  "env \<Rightarrow> upstream \<Rightarrow> request list \<Rightarrow> jsval \<Rightarrow> http_response \<times> request list" where
  "paystack_pay cfg net calls req_body =
     (case paystack_pay_try cfg net calls req_body of
        (Inr res, calls') \<Rightarrow> (res, calls')
      | (Inl err, calls') \<Rightarrow>
          (\<lparr>status = 500,
            json = JObj [(''error'', JStr ''Payment initialization failed'')]\<rparr>, calls'))"

definition verify_request :: "env \<Rightarrow> string \<Rightarrow> request" where
  "verify_request cfg reference =
     \<lparr>url = ''https://api.paystack.co/transaction/verify/'' @ reference,
      http_method = ''GET'',
      headers = [(''Authorization'', ''Bearer '' @ interpolate (PAYSTACK_SECRET_KEY cfg))],
      body = NoBody\<rparr>"

text \<open>
  \<^verbatim>\<open>GET /verify/:reference\<close> (lines 91-111); \<open>reference\<close> is the path parameter. No method
  is given to \<^verbatim>\<open>fetch\<close>, which then sends a GET.
\<close>

definition paystack_verify ::
  "env \<Rightarrow> upstream \<Rightarrow> request list \<Rightarrow> string \<Rightarrow> http_response \<times> request list" where
  "paystack_verify cfg net calls reference =
     (case fetch_json net calls (verify_request cfg reference) of
        (Inr (st, data), calls') \<Rightarrow>
          if opt_get (opt_get data ''data'') ''status'' = JStr ''success'' then
            (\<lparr>status = 200,
              json = JObj [(''data'', JObj [(''status'', JStr ''success''),
                                           (''reference'', JStr reference)])]\<rparr>, calls')
          else
            (\<lparr>status = 200,
              json = JObj [(''data'', JObj [(''status'', JStr ''failed''),
                                           (''reference'', JStr reference)])]\<rparr>, calls')
      | (Inl err, calls') \<Rightarrow>
          (\<lparr>status = 500, json = JObj [(''error'', JStr ''Verification failed'')]\<rparr>, calls'))"

section \<open>The delegated-order routes\<close>

text \<open>
  The arguments of the \<^verbatim>\<open>fetch\<close> in \<^verbatim>\<open>POST /api/paypal/create-order\<close> (lines 128-154), in
  the order the source evaluates them: \<^verbatim>\<open>amount.toString()\<close> while building the order,
  then the bearer header. \<open>currency\<close> is the destructured field, \<^verbatim>\<open>"USD"\<close> standing in
  for \<^verbatim>\<open>undefined\<close> only.
\<close>

definition order_request ::
  "builtins \<Rightarrow> env \<Rightarrow> jsval \<Rightarrow> jsval \<Rightarrow> jsval \<Rightarrow> jsval \<Rightarrow> jsval \<Rightarrow> js_error + request" where
  "order_request rt cfg accessToken amount currency returnUrl cancelUrl =
     (case toString_call (numberToString rt) ''amount.toString'' amount of
        Inl e \<Rightarrow> Inl e
      | Inr v \<Rightarrow>
     (case ToString (numberToString rt) accessToken of
        Inl e \<Rightarrow> Inl e
      | Inr bearer \<Rightarrow>
          Inr \<lparr>url = PAYPAL_BASE_URL cfg @ ''/v2/checkout/orders'',
               http_method = ''POST'',
               headers = [(''Content-Type'', ''application/json''),
                          (''Authorization'', ''Bearer '' @ bearer)],
               body = Json (JObj
                 [(''intent'', JStr ''CAPTURE''),
                  (''purchase_units'',
                     JArr [JObj [(''amount'',
                       JObj [(''currency_code'',
                                if currency = JUndefined then JStr ''USD'' else currency),
                             (''value'', JStr v)])]]),
                  (''application_context'',
                     JObj [(''brand_name'', JStr ''Face Fit''),
                           (''landing_page'', JStr ''BILLING''),
                           (''user_action'', JStr ''PAY_NOW''),
                           (''return_url'', returnUrl),
                           (''cancel_url'', cancelUrl)])])\<rparr>))"

text \<open>
  \<^verbatim>\<open>links.find(link => link.rel === "approve")\<close> on an array: the first element whose
  \<^verbatim>\<open>rel\<close> is the string, \<^verbatim>\<open>undefined\<close> when there is none; the callback throws on a
  \<^verbatim>\<open>null\<close> element it reaches.
\<close>

fun find_approve :: "jsval list \<Rightarrow> js_error + jsval" where
  "find_approve [] = Inr JUndefined"
| "find_approve (link # links) =
     (case get link ''rel'' of
        Inl e \<Rightarrow> Inl e
      | Inr rel \<Rightarrow> if rel = JStr ''approve'' then Inr link else find_approve links)"

text \<open>
  \<^verbatim>\<open>data.links.find(...)\<close> (line 167): the read of \<^verbatim>\<open>links\<close>, then the read of \<^verbatim>\<open>find\<close>,
  which only an array has as a function.
\<close>

definition approval_link :: "jsval \<Rightarrow> js_error + jsval" where
  "approval_link data =
     (case get data ''links'' of
        Inl e \<Rightarrow> Inl e
      | Inr links \<Rightarrow>
          if nullish links then Inl (TypeError (ReadOfNullish links ''find''))
          else (case links of
            JArr ls \<Rightarrow> find_approve ls
          | _ \<Rightarrow> Inl (TypeError (NotAFunction ''data.links.find''))))"

text \<open>The \<^verbatim>\<open>try\<close> block of \<^verbatim>\<open>POST /api/paypal/create-order\<close> (lines 118-177).\<close>

definition create_order_try ::
  "builtins \<Rightarrow> env \<Rightarrow> upstream \<Rightarrow> request list \<Rightarrow> jsval \<Rightarrow>
     (js_error + http_response) \<times> request list" where
  "create_order_try rt cfg net calls req_body =
     (if nullish req_body then (Inl (TypeError (ReadOfNullish req_body ''amount'')), calls)
      else
        (let amount = property req_body ''amount'';
             currency = property req_body ''currency'';
             returnUrl = property req_body ''returnUrl'';
             cancelUrl = property req_body ''cancelUrl''
         in
          if \<not> truthy amount \<or> \<not> truthy returnUrl \<or> \<not> truthy cancelUrl then
            (Inr \<lparr>status = 400,
                  json = JObj [(''error'',
                                JStr ''Amount, returnUrl, and cancelUrl are required'')]\<rparr>,
             calls)
          else
            (case getPayPalAccessToken rt cfg net calls of
               (Inl e, calls1) \<Rightarrow> (Inl e, calls1)
             | (Inr accessToken, calls1) \<Rightarrow>
            (case order_request rt cfg accessToken amount currency returnUrl cancelUrl of
               Inl e \<Rightarrow> (Inl e, calls1)
             | Inr rq \<Rightarrow>
            (case fetch_json net calls1 rq of
               (Inl e, calls2) \<Rightarrow> (Inl e, calls2)
             | (Inr (st, data), calls2) \<Rightarrow>
                 if \<not> ok st then
                   (Inr \<lparr>status = 400,
                         json = JObj [(''error'', JStr ''PayPal order creation failed''),
                                      (''details'', data)]\<rparr>, calls2)
                 else
                   (case approval_link data of
                      Inl e \<Rightarrow> (Inl e, calls2)
                    | Inr approvalLink \<Rightarrow>
                        if \<not> truthy approvalLink then
                          (Inl (Error ''No approval URL found in PayPal response''), calls2)
                        else
                          (Inr \<lparr>status = 200,
                                json = JObj [(''orderId'', property data ''id''),
                                             (''approvalUrl'', property approvalLink ''href''),
                                             (''status'', property data ''status'')]\<rparr>,
                           calls2)))))))"

text \<open>The route with its \<^verbatim>\<open>catch\<close> (lines 179-185).\<close>

definition create_order ::
  "builtins \<Rightarrow> env \<Rightarrow> upstream \<Rightarrow> request list \<Rightarrow> jsval \<Rightarrow> http_response \<times> request list" where
  "create_order rt cfg net calls req_body =
     (case create_order_try rt cfg net calls req_body of
        (Inr res, calls') \<Rightarrow> (res, calls')
      | (Inl err, calls') \<Rightarrow>
          (\<lparr>status = 500,
            json = JObj [(''error'', JStr ''Failed to create PayPal order''),
                         (''message'', JStr (message rt err))]\<rparr>, calls'))"

text \<open>
  The arguments of the \<^verbatim>\<open>fetch\<close> in \<^verbatim>\<open>POST /api/paypal/capture-order\<close> (lines 199-208):
  the URL interpolates the order id of the request body, the header the token.
\<close>

definition capture_request :: "builtins \<Rightarrow> env \<Rightarrow> jsval \<Rightarrow> jsval \<Rightarrow> js_error + request" where
  "capture_request rt cfg accessToken orderId =
     (case ToString (numberToString rt) orderId of
        Inl e \<Rightarrow> Inl e
      | Inr oid \<Rightarrow>
     (case ToString (numberToString rt) accessToken of
        Inl e \<Rightarrow> Inl e
      | Inr bearer \<Rightarrow>
          Inr \<lparr>url = PAYPAL_BASE_URL cfg @ ''/v2/checkout/orders/'' @ oid @ ''/capture'',
               http_method = ''POST'',
               headers = [(''Content-Type'', ''application/json''),
                          (''Authorization'', ''Bearer '' @ bearer)],
               body = NoBody\<rparr>))"

text \<open>The \<^verbatim>\<open>try\<close> block of \<^verbatim>\<open>POST /api/paypal/capture-order\<close> (lines 191-226).\<close>

definition capture_order_try ::
  "builtins \<Rightarrow> env \<Rightarrow> upstream \<Rightarrow> request list \<Rightarrow> jsval \<Rightarrow>
     (js_error + http_response) \<times> request list" where
  "capture_order_try rt cfg net calls req_body =
     (case get req_body ''orderId'' of
        Inl e \<Rightarrow> (Inl e, calls)
      | Inr orderId \<Rightarrow>
          if \<not> truthy orderId then
            (Inr \<lparr>status = 400, json = JObj [(''error'', JStr ''Order ID is required'')]\<rparr>,
             calls)
          else
            (case getPayPalAccessToken rt cfg net calls of
               (Inl e, calls1) \<Rightarrow> (Inl e, calls1)
             | (Inr accessToken, calls1) \<Rightarrow>
            (case capture_request rt cfg accessToken orderId of
               Inl e \<Rightarrow> (Inl e, calls1)
             | Inr rq \<Rightarrow>
            (case fetch_json net calls1 rq of
               (Inl e, calls2) \<Rightarrow> (Inl e, calls2)
             | (Inr (st, data), calls2) \<Rightarrow>
                 if \<not> ok st then
                   (Inr \<lparr>status = 400,
                         json = JObj [(''error'', JStr ''PayPal capture failed''),
                                      (''details'', data)]\<rparr>, calls2)
                 else
                   (case get data ''id'' of
                      Inl e \<Rightarrow> (Inl e, calls2)
                    | Inr order_id \<Rightarrow>
                        (Inr \<lparr>status = 200,
                              json = JObj [(''success'', JBool True),
                                           (''orderId'', order_id),
                                           (''status'', property data ''status''),
                                           (''payer'', property data ''payer''),
                                           (''purchase_units'',
                                              property data ''purchase_units'')]\<rparr>,
                         calls2))))))"

definition capture_order ::
  "builtins \<Rightarrow> env \<Rightarrow> upstream \<Rightarrow> request list \<Rightarrow> jsval \<Rightarrow> http_response \<times> request list" where
  "capture_order rt cfg net calls req_body =
     (case capture_order_try rt cfg net calls req_body of
        (Inr res, calls') \<Rightarrow> (res, calls')
      | (Inl err, calls') \<Rightarrow>
          (\<lparr>status = 500,
            json = JObj [(''error'', JStr ''Failed to capture PayPal payment''),
                         (''message'', JStr (message rt err))]\<rparr>, calls'))"

text \<open>
  The arguments of the \<^verbatim>\<open>fetch\<close> in \<^verbatim>\<open>GET /api/paypal/verify/:orderId\<close> (lines 244-251);
  \<open>orderId\<close> is the path parameter, a string.
\<close>

definition order_detail_request ::
  "builtins \<Rightarrow> env \<Rightarrow> jsval \<Rightarrow> string \<Rightarrow> js_error + request" where
  "order_detail_request rt cfg accessToken orderId =
     (case ToString (numberToString rt) accessToken of
        Inl e \<Rightarrow> Inl e
      | Inr bearer \<Rightarrow>
          Inr \<lparr>url = PAYPAL_BASE_URL cfg @ ''/v2/checkout/orders/'' @ orderId,
               http_method = ''GET'',
               headers = [(''Authorization'', ''Bearer '' @ bearer)],
               body = NoBody\<rparr>)"

text \<open>The \<^verbatim>\<open>try\<close> block of \<^verbatim>\<open>GET /api/paypal/verify/:orderId\<close> (lines 240-270).\<close>

definition paypal_verify_try ::
  "builtins \<Rightarrow> env \<Rightarrow> upstream \<Rightarrow> request list \<Rightarrow> string \<Rightarrow>
     (js_error + http_response) \<times> request list" where
  "paypal_verify_try rt cfg net calls orderId =
     (case getPayPalAccessToken rt cfg net calls of
        (Inl e, calls1) \<Rightarrow> (Inl e, calls1)
      | (Inr accessToken, calls1) \<Rightarrow>
     (case order_detail_request rt cfg accessToken orderId of
        Inl e \<Rightarrow> (Inl e, calls1)
      | Inr rq \<Rightarrow>
     (case fetch_json net calls1 rq of
        (Inl e, calls2) \<Rightarrow> (Inl e, calls2)
      | (Inr (st, data), calls2) \<Rightarrow>
          if \<not> ok st then
            (Inr \<lparr>status = 400,
                  json = JObj [(''error'', JStr ''PayPal verification failed''),
                               (''details'', data)]\<rparr>, calls2)
          else
            (case get data ''id'' of
               Inl e \<Rightarrow> (Inl e, calls2)
             | Inr order_id \<Rightarrow>
                 (Inr \<lparr>status = 200,
                       json = JObj [(''orderId'', order_id),
                                    (''status'', property data ''status''),
                                    (''create_time'', property data ''create_time''),
                                    (''update_time'', property data ''update_time''),
                                    (''payer'', property data ''payer''),
                                    (''purchase_units'', property data ''purchase_units'')]\<rparr>,
                  calls2)))))"

definition paypal_verify ::
  "builtins \<Rightarrow> env \<Rightarrow> upstream \<Rightarrow> request list \<Rightarrow> string \<Rightarrow> http_response \<times> request list" where
  "paypal_verify rt cfg net calls orderId =
     (case paypal_verify_try rt cfg net calls orderId of
        (Inr res, calls') \<Rightarrow> (res, calls')
      | (Inl err, calls') \<Rightarrow>
          (\<lparr>status = 500,
            json = JObj [(''error'', JStr ''Failed to verify PayPal payment''),
                         (''message'', JStr (message rt err))]\<rparr>, calls'))"

section \<open>Inputs of the examples\<close>

text \<open>
  The theorems below hold for every \<open>builtins\<close>, every environment and every upstream.
  The examples evaluate the routes on the inputs defined here. \<open>placeholder_builtins\<close>
  encodes nothing: the examples use string amounts, and the credentials stand unencoded
  in the header.
\<close>

definition placeholder_builtins :: builtins where
  "placeholder_builtins =
     \<lparr>numberToString = (\<lambda>r. ''0''), base64 = (\<lambda>s. s), typeErrorMessage = (\<lambda>c. ''TypeError'')\<rparr>"

definition sample_env :: env where
  "sample_env =
     \<lparr>PAYSTACK_SECRET_KEY = Some ''sk_test_1'', PAYPAL_CLIENT_ID = Some ''client'',
      PAYPAL_CLIENT_SECRET = Some ''secret'', env_PAYPAL_BASE_URL = None\<rparr>"

text \<open>An upstream that cannot be reached: every \<^verbatim>\<open>fetch\<close> rejects.\<close>

definition upstream_down :: upstream where
  "upstream_down calls rq = Rejects ''connect ECONNREFUSED''"

text \<open>
  The direct-charge provider reporting a paid transaction, for the initialize call and
  for the verify call alike.
\<close>

definition paystack_success :: upstream where
  "paystack_success calls rq =
     Responds 200 (Parsed (JObj
       [(''status'', JBool True), (''message'', JStr ''Verification successful''),
        (''data'', JObj [(''status'', JStr ''success''), (''reference'', JStr ''abc123'')])]))"

text \<open>The direct-charge provider refusing a call, with a JSON payload that says so.\<close>

definition paystack_rejected :: upstream where
  "paystack_rejected calls rq =
     Responds 400 (Parsed (JObj [(''status'', JBool False),
                                 (''message'', JStr ''Transaction reference not found'')]))"

text \<open>An upstream whose body is the JSON text \<^verbatim>\<open>null\<close>.\<close>

definition upstream_null :: upstream where
  "upstream_null calls rq = Responds 200 (Parsed JNull)"

text \<open>A token endpoint that answers 200 with a payload that has no \<^verbatim>\<open>access_token\<close>.\<close>

definition token_omitted :: upstream where
  "token_omitted calls rq =
     Responds 200 (Parsed (JObj [(''token_type'', JStr ''Bearer''), (''expires_in'', JNum 32400)]))"

text \<open>A token endpoint that refuses the credentials.\<close>

definition paypal_auth_rejected :: upstream where
  "paypal_auth_rejected calls rq =
     Responds 401 (Parsed (JObj [(''error'', JStr ''invalid_client''),
                                 (''error_description'', JStr ''Client Authentication failed'')]))"

text \<open>
  The delegated-order provider: it tells its three endpoints apart by the body of the
  call (the form of the token exchange, the JSON order, the empty body of a capture).
\<close>

definition paypal_sandbox :: upstream where
  "paypal_sandbox calls rq =
     (case body rq of
        Form grant \<Rightarrow> Responds 200 (Parsed (JObj [(''access_token'', JStr ''A21AA'')]))
      | Json order \<Rightarrow>
          Responds 201 (Parsed (JObj
            [(''id'', JStr ''5O190127TN''), (''status'', JStr ''CREATED''),
             (''links'', JArr
               [JObj [(''href'', JStr ''https://api.example/orders/5O190127TN''),
                      (''rel'', JStr ''self'')],
                JObj [(''href'', JStr ''https://pay.example/checkoutnow?token=5O190127TN''),
                      (''rel'', JStr ''approve'')]])]))
      | NoBody \<Rightarrow>
          Responds 201 (Parsed (JObj [(''id'', JStr ''5O190127TN''), (''status'', JStr ''COMPLETED'')])))"

text \<open>The same provider creating an order whose links have no \<^verbatim>\<open>approve\<close> entry.\<close>

definition paypal_no_approve :: upstream where
  "paypal_no_approve calls rq =
     (case body rq of
        Form grant \<Rightarrow> Responds 200 (Parsed (JObj [(''access_token'', JStr ''A21AA'')]))
      | _ \<Rightarrow>
          Responds 201 (Parsed (JObj
            [(''id'', JStr ''5O190127TN''), (''status'', JStr ''CREATED''),
             (''links'', JArr
               [JObj [(''href'', JStr ''https://api.example/orders/5O190127TN''),
                      (''rel'', JStr ''self'')]])])))"

section \<open>The calls a route makes\<close>

lemma fetch_json_calls: "snd (fetch_json net calls rq) = calls @ [rq]"
  by (simp add: fetch_json_def split: reply.split parsed.split)

lemma getPayPalAccessToken_calls:
  "snd (getPayPalAccessToken rt cfg net calls) = calls @ [token_request rt cfg]"
  using fetch_json_calls [of net calls "token_request rt cfg"]
  by (auto simp: getPayPalAccessToken_def split: prod.splits sum.splits)

section \<open>Validation of the request body\<close>







text \<open>
  C9. The validation tests truthiness, not presence. A body whose \<^verbatim>\<open>amount\<close> is the number
  0, or whose \<^verbatim>\<open>email\<close> (direct charge) or \<^verbatim>\<open>returnUrl\<close> or \<^verbatim>\<open>cancelUrl\<close> (delegated order)
  is the empty string, has the field and still gets the 400 of a missing field, with no
  call made: the answer is the one the empty body \<^verbatim>\<open>{}\<close> gets.
\<close>

theorem falsy_field_rejected_as_missing:
  "(map_of fs ''amount'' = Some (JNum 0) \<or> map_of fs ''email'' = Some (JStr []) \<longrightarrow>
      paystack_pay cfg net calls (JObj fs) =
        (\<lparr>status = 400, json = JObj [(''error'', JStr ''Email and amount are required'')]\<rparr>,
         calls) \<and>
      paystack_pay cfg net calls (JObj fs) = paystack_pay cfg net calls (JObj [])) \<and>
   (map_of fs ''amount'' = Some (JNum 0) \<or> map_of fs ''returnUrl'' = Some (JStr []) \<or>
    map_of fs ''cancelUrl'' = Some (JStr []) \<longrightarrow>
      create_order rt cfg net calls (JObj fs) =
        (\<lparr>status = 400,
          json = JObj [(''error'', JStr ''Amount, returnUrl, and cancelUrl are required'')]\<rparr>,
         calls) \<and>
      create_order rt cfg net calls (JObj fs) = create_order rt cfg net calls (JObj []))"
  by (auto simp: paystack_pay_def paystack_pay_try_def create_order_def create_order_try_def
        Let_def nullish_def)

theorem falsy_field_rejected_as_missing_witness:
  "paystack_pay sample_env paystack_success []
     (JObj [(''email'', JStr ''a@b.com''), (''amount'', JNum 0)]) =
     (\<lparr>status = 400, json = JObj [(''error'', JStr ''Email and amount are required'')]\<rparr>, []) \<and>
   create_order placeholder_builtins sample_env upstream_down []
     (JObj [(''amount'', JStr ''10.00''), (''returnUrl'', JStr []),
            (''cancelUrl'', JStr ''https://y'')]) =
     (\<lparr>status = 400,
       json = JObj [(''error'', JStr ''Amount, returnUrl, and cancelUrl are required'')]\<rparr>, [])"
  using falsy_field_rejected_as_missing
    [where fs = "[(''email'', JStr ''a@b.com''), (''amount'', JNum 0)]" and cfg = sample_env
       and net = paystack_success and calls = "[]"]
    falsy_field_rejected_as_missing
    [where fs = "[(''amount'', JStr ''10.00''), (''returnUrl'', JStr []),
                  (''cancelUrl'', JStr ''https://y'')]"
       and rt = placeholder_builtins and cfg = sample_env and net = upstream_down and calls = "[]"]
  by simp

section \<open>The direct-charge initialize call\<close>

lemma paystack_pay_try_calls:
  "snd (paystack_pay_try cfg net calls b) = calls \<or>
   snd (paystack_pay_try cfg net calls b) =
     calls @ [initialize_request cfg (property b ''email'') (property b ''amount'')]"
  using fetch_json_calls
    [of net calls "initialize_request cfg (property b ''email'') (property b ''amount'')"]
  by (auto simp: paystack_pay_try_def Let_def split: prod.splits sum.splits)

lemma paystack_pay_calls:
  "snd (paystack_pay cfg net calls b) = snd (paystack_pay_try cfg net calls b)"
  by (simp add: paystack_pay_def split: prod.splits sum.splits)

lemma paystack_pay_valid_calls:
  assumes "\<not> nullish b" "truthy (property b ''email'')" "truthy (property b ''amount'')"
  shows "snd (paystack_pay cfg net calls b) =
     calls @ [initialize_request cfg (property b ''email'') (property b ''amount'')]"
  using assms fetch_json_calls
    [of net calls "initialize_request cfg (property b ''email'') (property b ''amount'')"]
  by (auto simp: paystack_pay_def paystack_pay_try_def Let_def split: prod.splits sum.splits)

text \<open>
  C10. Whatever the request body, every call that \<^verbatim>\<open>POST /api/paystack/pay\<close> adds to the
  list of calls carries a JSON body of exactly three fields, the third being
  \<^verbatim>\<open>callback_url\<close> with the text \<^verbatim>\<open>https://remboglow.com/\<close>; and a request that passes the
  validation makes exactly one call, whose other two fields are the client's \<^verbatim>\<open>email\<close>
  and \<^verbatim>\<open>amount\<close>. No other field of the request body reaches the upstream.
\<close>

theorem initialize_callback_url_fixed:
  "(\<forall>rq \<in> set (drop (length calls) (snd (paystack_pay cfg net calls req_body))).
      \<exists>email amount. body rq = Json (JObj [(''email'', email), (''amount'', amount),
                           (''callback_url'', JStr ''https://remboglow.com/'')])) \<and>
   (\<not> nullish req_body \<and> truthy (property req_body ''email'') \<and>
    truthy (property req_body ''amount'') \<longrightarrow>
      (\<exists>rq. snd (paystack_pay cfg net calls req_body) = calls @ [rq] \<and>
            body rq = Json (JObj [(''email'', property req_body ''email''),
                                  (''amount'', property req_body ''amount''),
                                  (''callback_url'', JStr ''https://remboglow.com/'')])))"
proof (intro conjI impI)
  show "\<forall>rq \<in> set (drop (length calls) (snd (paystack_pay cfg net calls req_body))).
      \<exists>email amount. body rq = Json (JObj [(''email'', email), (''amount'', amount),
                           (''callback_url'', JStr ''https://remboglow.com/'')])"
    using paystack_pay_try_calls [of cfg net calls req_body]
    by (auto simp: paystack_pay_calls initialize_request_def)
next
  assume "\<not> nullish req_body \<and> truthy (property req_body ''email'') \<and>
    truthy (property req_body ''amount'')"
  then show "\<exists>rq. snd (paystack_pay cfg net calls req_body) = calls @ [rq] \<and>
            body rq = Json (JObj [(''email'', property req_body ''email''),
                                  (''amount'', property req_body ''amount''),
                                  (''callback_url'', JStr ''https://remboglow.com/'')])"
    using paystack_pay_valid_calls [of req_body cfg net calls]
    by (simp add: initialize_request_def)
qed

text \<open>A client that sends a \<^verbatim>\<open>callback_url\<close> of its own: the upstream does not see it.\<close>

theorem initialize_callback_url_fixed_witness:
  "map body (snd (paystack_pay sample_env paystack_success []
       (JObj [(''email'', JStr ''a@b.com''), (''amount'', JNum 5000),
              (''callback_url'', JStr ''https://attacker.example/'')]))) =
     [Json (JObj [(''email'', JStr ''a@b.com''), (''amount'', JNum 5000),
                  (''callback_url'', JStr ''https://remboglow.com/'')])]"
  using initialize_callback_url_fixed [of "[]" sample_env paystack_success
      "JObj [(''email'', JStr ''a@b.com''), (''amount'', JNum 5000),
              (''callback_url'', JStr ''https://attacker.example/'')]"]
  by (auto simp: nullish_def)

section \<open>The outcome of the direct-charge routes\<close>

lemma reported_success_iff:
  "opt_get (opt_get d ''data'') ''status'' = JStr ''success'' \<longleftrightarrow>
     (\<exists>fs gs. d = JObj fs \<and> map_of fs ''data'' = Some (JObj gs) \<and>
              map_of gs ''status'' = Some (JStr ''success''))"
proof (cases d)
  case (JObj fs)
  show ?thesis
  proof (cases "map_of fs ''data''")
    case None
    with JObj show ?thesis by (simp add: opt_get_def nullish_def)
  next
    case (Some v)
    with JObj show ?thesis
      by (cases v) (auto simp: opt_get_def nullish_def split: option.splits)
  qed
qed (simp_all add: opt_get_def nullish_def)

text \<open>
  C2. When the upstream call of \<^verbatim>\<open>GET /verify/:reference\<close> completes, that is \<^verbatim>\<open>fetch\<close>
  resolves and the body parses to a payload \<open>d\<close>, the answer has status 200 and the body
  \<^verbatim>\<open>{data: {status, reference}}\<close>, where \<^verbatim>\<open>reference\<close> is the path parameter and \<^verbatim>\<open>status\<close> is
  \<^verbatim>\<open>"success"\<close> exactly when \<open>d\<close> is an object whose \<^verbatim>\<open>data\<close> is an object whose \<^verbatim>\<open>status\<close> is
  the string \<^verbatim>\<open>"success"\<close>, and \<^verbatim>\<open>"failed"\<close> for every other payload, whatever the HTTP
  status of the upstream response.
\<close>

theorem paystack_verify_status:
  assumes "net calls (verify_request cfg reference) = Responds st (Parsed d)"
  shows "paystack_verify cfg net calls reference =
           (\<lparr>status = 200,
             json = JObj [(''data'', JObj
               [(''status'',
                 JStr (if (\<exists>fs gs. d = JObj fs \<and> map_of fs ''data'' = Some (JObj gs) \<and>
                                   map_of gs ''status'' = Some (JStr ''success''))
                       then ''success'' else ''failed'')),
                (''reference'', JStr reference)])]\<rparr>,
            calls @ [verify_request cfg reference])"
  using assms reported_success_iff [of d]
  by (simp add: paystack_verify_def fetch_json_def)

text \<open>
  The third example scenario of the specification, and a reference the provider does not
  know.
\<close>

theorem paystack_verify_status_witness:
  "paystack_verify sample_env paystack_success [] ''abc123'' =
     (\<lparr>status = 200,
       json = JObj [(''data'', JObj [(''status'', JStr ''success''),
                                    (''reference'', JStr ''abc123'')])]\<rparr>,
      [verify_request sample_env ''abc123'']) \<and>
   paystack_verify sample_env paystack_rejected [] ''abc123'' =
     (\<lparr>status = 200,
       json = JObj [(''data'', JObj [(''status'', JStr ''failed''),
                                    (''reference'', JStr ''abc123'')])]\<rparr>,
      [verify_request sample_env ''abc123''])"
  using paystack_verify_status [of paystack_success "[]" sample_env "''abc123''" 200
      "JObj [(''status'', JBool True), (''message'', JStr ''Verification successful''),
        (''data'', JObj [(''status'', JStr ''success''), (''reference'', JStr ''abc123'')])]"]
    paystack_verify_status [of paystack_rejected "[]" sample_env "''abc123''" 400
      "JObj [(''status'', JBool False),
             (''message'', JStr ''Transaction reference not found'')]"]
  by (simp add: paystack_success_def paystack_rejected_def)

text \<open>
  C4, as the claim states it, fails: when the upstream cannot be reached the route
  answers 500 with \<^verbatim>\<open>{error: "Verification failed"}\<close>, not 400 with details.
\<close>

theorem paystack_verify_transport_failure_is_500:
  "fst (paystack_verify sample_env upstream_down [] ''abc123'') =
     \<lparr>status = 500, json = JObj [(''error'', JStr ''Verification failed'')]\<rparr> \<and>
   status (fst (paystack_verify sample_env upstream_down [] ''abc123'')) \<noteq> 400"
  by (simp add: paystack_verify_def fetch_json_def upstream_down_def)

text \<open>
  C4, amended. A payload that does not report success does not fail the HTTP call: the
  answer is 200 with the status \<^verbatim>\<open>"failed"\<close>. A rejected \<^verbatim>\<open>fetch\<close> and a body that is not
  JSON are answered with status 500 and the body \<^verbatim>\<open>{error: "Verification failed"}\<close>,
  which carries no details.
\<close>

theorem paystack_verify_failure_modes:
  "(net calls (verify_request cfg reference) = Responds st (Parsed d) \<and>
    opt_get (opt_get d ''data'') ''status'' \<noteq> JStr ''success'' \<longrightarrow>
      paystack_verify cfg net calls reference =
        (\<lparr>status = 200,
          json = JObj [(''data'', JObj [(''status'', JStr ''failed''),
                                       (''reference'', JStr reference)])]\<rparr>,
         calls @ [verify_request cfg reference])) \<and>
   (net calls (verify_request cfg reference) = Rejects m \<or>
    net calls (verify_request cfg reference) = Responds st (NotJson m) \<longrightarrow>
      paystack_verify cfg net calls reference =
        (\<lparr>status = 500, json = JObj [(''error'', JStr ''Verification failed'')]\<rparr>,
         calls @ [verify_request cfg reference]))"
  by (auto simp: paystack_verify_def fetch_json_def)

theorem paystack_verify_failure_modes_witness:
  "paystack_verify sample_env paystack_rejected [] ''abc123'' =
     (\<lparr>status = 200,
       json = JObj [(''data'', JObj [(''status'', JStr ''failed''),
                                    (''reference'', JStr ''abc123'')])]\<rparr>,
      [verify_request sample_env ''abc123'']) \<and>
   paystack_verify sample_env upstream_down [] ''abc123'' =
     (\<lparr>status = 500, json = JObj [(''error'', JStr ''Verification failed'')]\<rparr>,
      [verify_request sample_env ''abc123''])"
  using paystack_verify_failure_modes
    [where net = paystack_rejected and calls = "[]" and cfg = sample_env
       and reference = "''abc123''" and st = 400
       and d = "JObj [(''status'', JBool False),
                      (''message'', JStr ''Transaction reference not found'')]"]
    paystack_verify_failure_modes
    [where net = upstream_down and calls = "[]" and cfg = sample_env
       and reference = "''abc123''" and m = "''connect ECONNREFUSED''"]
  by (simp add: upstream_down_def paystack_rejected_def opt_get_def nullish_def)

text \<open>
  C7, as the claim states it, fails: the payload \<^verbatim>\<open>null\<close> is a body that parses and has no
  status flag, and it is not returned; reading \<^verbatim>\<open>data.status\<close> throws and the route
  answers 500.
\<close>

theorem paystack_pay_null_payload_is_500:
  "paystack_pay sample_env upstream_null []
       (JObj [(''email'', JStr ''a@b.com''), (''amount'', JNum 5000)]) =
     (\<lparr>status = 500, json = JObj [(''error'', JStr ''Payment initialization failed'')]\<rparr>,
      [initialize_request sample_env (JStr ''a@b.com'') (JNum 5000)]) \<and>
   fst (paystack_pay sample_env upstream_null []
       (JObj [(''email'', JStr ''a@b.com''), (''amount'', JNum 5000)])) \<noteq>
     \<lparr>status = 200, json = JNull\<rparr>"
  by (simp add: paystack_pay_def paystack_pay_try_def fetch_json_def upstream_null_def
        nullish_def get_def Let_def)

text \<open>
  C7, amended. For a request to \<^verbatim>\<open>POST /api/paystack/pay\<close> that passes the validation,
  \<open>rq\<close> being the one call it makes: a payload whose \<^verbatim>\<open>status\<close> is falsy (\<^verbatim>\<open>false\<close>, 0, the
  empty string, \<^verbatim>\<open>null\<close> or absent) is answered with 400 and the payload as \<^verbatim>\<open>details\<close>; a
  rejected \<^verbatim>\<open>fetch\<close>, a body that is not JSON and the payload \<^verbatim>\<open>null\<close> are answered with
  500; every other payload is the body of a 200 answer, unchanged.
\<close>

theorem paystack_pay_outcome:
  assumes "\<not> nullish req_body"
    and "truthy (property req_body ''email'')"
    and "truthy (property req_body ''amount'')"
    and "rq = initialize_request cfg (property req_body ''email'') (property req_body ''amount'')"
  shows "(net calls rq = Responds st (Parsed d) \<and> \<not> nullish d \<and>
          \<not> truthy (property d ''status'') \<longrightarrow>
            paystack_pay cfg net calls req_body =
              (\<lparr>status = 400,
                json = JObj [(''error'', JStr ''Payment initialization failed''),
                             (''details'', d)]\<rparr>, calls @ [rq])) \<and>
         (net calls rq = Rejects m \<or> net calls rq = Responds st (NotJson m) \<or>
          net calls rq = Responds st (Parsed d) \<and> nullish d \<longrightarrow>
            paystack_pay cfg net calls req_body =
              (\<lparr>status = 500,
                json = JObj [(''error'', JStr ''Payment initialization failed'')]\<rparr>,
               calls @ [rq])) \<and>
         (net calls rq = Responds st (Parsed d) \<and> \<not> nullish d \<and>
          truthy (property d ''status'') \<longrightarrow>
            paystack_pay cfg net calls req_body = (\<lparr>status = 200, json = d\<rparr>, calls @ [rq]))"
  using assms
  by (auto simp: paystack_pay_def paystack_pay_try_def fetch_json_def get_def Let_def)

text \<open>
  The first example scenario of the specification, a call the provider refuses, and a
  provider that cannot be reached.
\<close>

theorem paystack_pay_outcome_witness:
  "paystack_pay sample_env paystack_success []
       (JObj [(''email'', JStr ''a@b.com''), (''amount'', JNum 5000)]) =
     (\<lparr>status = 200,
       json = JObj
         [(''status'', JBool True), (''message'', JStr ''Verification successful''),
          (''data'', JObj [(''status'', JStr ''success''), (''reference'', JStr ''abc123'')])]\<rparr>,
      [initialize_request sample_env (JStr ''a@b.com'') (JNum 5000)]) \<and>
   paystack_pay sample_env paystack_rejected []
       (JObj [(''email'', JStr ''a@b.com''), (''amount'', JNum 5000)]) =
     (\<lparr>status = 400,
       json = JObj [(''error'', JStr ''Payment initialization failed''),
                    (''details'', JObj [(''status'', JBool False),
                        (''message'', JStr ''Transaction reference not found'')])]\<rparr>,
      [initialize_request sample_env (JStr ''a@b.com'') (JNum 5000)]) \<and>
   paystack_pay sample_env upstream_down []
       (JObj [(''email'', JStr ''a@b.com''), (''amount'', JNum 5000)]) =
     (\<lparr>status = 500, json = JObj [(''error'', JStr ''Payment initialization failed'')]\<rparr>,
      [initialize_request sample_env (JStr ''a@b.com'') (JNum 5000)])"
  using paystack_pay_outcome
    [where req_body = "JObj [(''email'', JStr ''a@b.com''), (''amount'', JNum 5000)]"
       and cfg = sample_env and net = paystack_success and calls = "[]" and st = 200
       and rq = "initialize_request sample_env (JStr ''a@b.com'') (JNum 5000)"
       and d = "JObj
         [(''status'', JBool True), (''message'', JStr ''Verification successful''),
          (''data'', JObj [(''status'', JStr ''success''), (''reference'', JStr ''abc123'')])]"]
    paystack_pay_outcome
    [where req_body = "JObj [(''email'', JStr ''a@b.com''), (''amount'', JNum 5000)]"
       and cfg = sample_env and net = paystack_rejected and calls = "[]" and st = 400
       and rq = "initialize_request sample_env (JStr ''a@b.com'') (JNum 5000)"
       and d = "JObj [(''status'', JBool False),
                      (''message'', JStr ''Transaction reference not found'')]"]
    paystack_pay_outcome
    [where req_body = "JObj [(''email'', JStr ''a@b.com''), (''amount'', JNum 5000)]"
       and cfg = sample_env and net = upstream_down and calls = "[]"
       and rq = "initialize_request sample_env (JStr ''a@b.com'') (JNum 5000)"
       and m = "''connect ECONNREFUSED''"]
  by (simp add: paystack_success_def paystack_rejected_def upstream_down_def nullish_def)

section \<open>Token acquisition and the delegated-order routes\<close>

text \<open>
  C3, as the claim states it, fails: a token endpoint that answers with a success status
  and a payload without \<^verbatim>\<open>access_token\<close> does not make \<^verbatim>\<open>getPayPalAccessToken\<close> fail. The
  function returns \<^verbatim>\<open>undefined\<close>.
\<close>

theorem token_without_access_token_is_returned:
  "token_omitted [] (token_request placeholder_builtins sample_env) =
     Responds 200 (Parsed (JObj [(''token_type'', JStr ''Bearer''), (''expires_in'', JNum 32400)])) \<and>
   getPayPalAccessToken placeholder_builtins sample_env token_omitted [] =
     (Inr JUndefined, [token_request placeholder_builtins sample_env])"
  by (simp add: getPayPalAccessToken_def fetch_json_def token_omitted_def ok_def get_def
        nullish_def)

text \<open>
  C3, amended. For every call of \<^verbatim>\<open>getPayPalAccessToken\<close>, by the reply to the token
  request: the function fails when \<^verbatim>\<open>fetch\<close> rejects, when the body is not JSON and when
  the payload is \<^verbatim>\<open>null\<close>, whatever the status; and it fails whenever the status is outside
  200-299. With such a status and a payload that is not \<^verbatim>\<open>null\<close> the error is
  \<^verbatim>\<open>Error("PayPal auth failed: " + D)\<close>, where \<^verbatim>\<open>D\<close> is the text of the payload's
  \<^verbatim>\<open>error_description\<close> when that is truthy (a string as it stands) and \<^verbatim>\<open>Unknown error\<close>
  when it is not; a truthy description without a text (an object with an own
  \<^verbatim>\<open>toString\<close>) makes the conversion's \<^verbatim>\<open>TypeError\<close> the error. With a status in 200-299
  and a payload that is not \<^verbatim>\<open>null\<close> the function returns the payload's \<^verbatim>\<open>access_token\<close>,
  which is \<^verbatim>\<open>undefined\<close> when the payload omits it.
\<close>

theorem getPayPalAccessToken_outcome:
  "(net calls (token_request rt cfg) = Rejects m \<longrightarrow>
      fst (getPayPalAccessToken rt cfg net calls) = Inl (FetchError m)) \<and>
   (net calls (token_request rt cfg) = Responds st (NotJson m) \<longrightarrow>
      fst (getPayPalAccessToken rt cfg net calls) = Inl (BodyError m)) \<and>
   (net calls (token_request rt cfg) = Responds st (Parsed d) \<and> nullish d \<longrightarrow>
      fst (getPayPalAccessToken rt cfg net calls) =
        Inl (TypeError (ReadOfNullish d
               (if ok st then ''access_token'' else ''error_description'')))) \<and>
   (net calls (token_request rt cfg) = Responds st p \<and> \<not> ok st \<longrightarrow>
      (\<exists>e. fst (getPayPalAccessToken rt cfg net calls) = Inl e)) \<and>
   (net calls (token_request rt cfg) = Responds st (Parsed d) \<and> \<not> ok st \<and> \<not> nullish d \<and>
    truthy (property d ''error_description'') \<and>
    ToString (numberToString rt) (property d ''error_description'') = Inr s \<longrightarrow>
      fst (getPayPalAccessToken rt cfg net calls) = Inl (Error (''PayPal auth failed: '' @ s))) \<and>
   (net calls (token_request rt cfg) = Responds st (Parsed d) \<and> \<not> ok st \<and>
    property d ''error_description'' = JStr s \<and> s \<noteq> [] \<longrightarrow>
      fst (getPayPalAccessToken rt cfg net calls) = Inl (Error (''PayPal auth failed: '' @ s))) \<and>
   (net calls (token_request rt cfg) = Responds st (Parsed d) \<and> \<not> ok st \<and> \<not> nullish d \<and>
    truthy (property d ''error_description'') \<and>
    ToString (numberToString rt) (property d ''error_description'') = Inl e \<longrightarrow>
      fst (getPayPalAccessToken rt cfg net calls) = Inl e) \<and>
   (net calls (token_request rt cfg) = Responds st (Parsed d) \<and> \<not> ok st \<and> \<not> nullish d \<and>
    \<not> truthy (property d ''error_description'') \<longrightarrow>
      fst (getPayPalAccessToken rt cfg net calls) =
        Inl (Error ''PayPal auth failed: Unknown error'')) \<and>
   (net calls (token_request rt cfg) = Responds st (Parsed d) \<and> ok st \<and> \<not> nullish d \<longrightarrow>
      fst (getPayPalAccessToken rt cfg net calls) = Inr (property d ''access_token''))"
proof (intro conjI impI)
  assume "net calls (token_request rt cfg) = Rejects m"
  then show "fst (getPayPalAccessToken rt cfg net calls) = Inl (FetchError m)"
    by (simp add: getPayPalAccessToken_def fetch_json_def)
next
  assume "net calls (token_request rt cfg) = Responds st (NotJson m)"
  then show "fst (getPayPalAccessToken rt cfg net calls) = Inl (BodyError m)"
    by (simp add: getPayPalAccessToken_def fetch_json_def)
next
  assume "net calls (token_request rt cfg) = Responds st (Parsed d) \<and> nullish d"
  then show "fst (getPayPalAccessToken rt cfg net calls) =
      Inl (TypeError (ReadOfNullish d
             (if ok st then ''access_token'' else ''error_description'')))"
    by (simp add: getPayPalAccessToken_def fetch_json_def get_def)
next
  assume "net calls (token_request rt cfg) = Responds st p \<and> \<not> ok st"
  then show "\<exists>e. fst (getPayPalAccessToken rt cfg net calls) = Inl e"
    by (cases p) (auto simp: getPayPalAccessToken_def fetch_json_def split: sum.splits)
next
  assume "net calls (token_request rt cfg) = Responds st (Parsed d) \<and> \<not> ok st \<and> \<not> nullish d \<and>
    truthy (property d ''error_description'') \<and>
    ToString (numberToString rt) (property d ''error_description'') = Inr s"
  then show "fst (getPayPalAccessToken rt cfg net calls) =
      Inl (Error (''PayPal auth failed: '' @ s))"
    by (simp add: getPayPalAccessToken_def fetch_json_def get_def)
next
  assume "net calls (token_request rt cfg) = Responds st (Parsed d) \<and> \<not> ok st \<and>
    property d ''error_description'' = JStr s \<and> s \<noteq> []"
  moreover from this have "\<not> nullish d"
    by (auto simp: nullish_def)
  ultimately show "fst (getPayPalAccessToken rt cfg net calls) =
      Inl (Error (''PayPal auth failed: '' @ s))"
    by (simp add: getPayPalAccessToken_def fetch_json_def get_def)
next
  assume "net calls (token_request rt cfg) = Responds st (Parsed d) \<and> \<not> ok st \<and> \<not> nullish d \<and>
    truthy (property d ''error_description'') \<and>
    ToString (numberToString rt) (property d ''error_description'') = Inl e"
  then show "fst (getPayPalAccessToken rt cfg net calls) = Inl e"
    by (simp add: getPayPalAccessToken_def fetch_json_def get_def)
next
  assume "net calls (token_request rt cfg) = Responds st (Parsed d) \<and> \<not> ok st \<and> \<not> nullish d \<and>
    \<not> truthy (property d ''error_description'')"
  then show "fst (getPayPalAccessToken rt cfg net calls) =
      Inl (Error ''PayPal auth failed: Unknown error'')"
    by (simp add: getPayPalAccessToken_def fetch_json_def get_def)
next
  assume "net calls (token_request rt cfg) = Responds st (Parsed d) \<and> ok st \<and> \<not> nullish d"
  then show "fst (getPayPalAccessToken rt cfg net calls) = Inr (property d ''access_token'')"
    by (simp add: getPayPalAccessToken_def fetch_json_def get_def)
qed

text \<open>
  Credentials the token endpoint refuses, a token endpoint that answers with a token, one
  whose body is the JSON text \<^verbatim>\<open>null\<close>, and one that cannot be reached.
\<close>

theorem getPayPalAccessToken_outcome_witness:
  "fst (getPayPalAccessToken placeholder_builtins sample_env paypal_auth_rejected []) =
     Inl (Error ''PayPal auth failed: Client Authentication failed'') \<and>
   fst (getPayPalAccessToken placeholder_builtins sample_env paypal_sandbox []) =
     Inr (JStr ''A21AA'') \<and>
   fst (getPayPalAccessToken placeholder_builtins sample_env upstream_null []) =
     Inl (TypeError (ReadOfNullish JNull ''access_token'')) \<and>
   fst (getPayPalAccessToken placeholder_builtins sample_env upstream_down []) =
     Inl (FetchError ''connect ECONNREFUSED'')"
  using getPayPalAccessToken_outcome
    [where net = paypal_auth_rejected and calls = "[]" and rt = placeholder_builtins
       and cfg = sample_env and st = 401 and s = "''Client Authentication failed''"
       and d = "JObj [(''error'', JStr ''invalid_client''),
                      (''error_description'', JStr ''Client Authentication failed'')]"]
    getPayPalAccessToken_outcome
    [where net = paypal_sandbox and calls = "[]" and rt = placeholder_builtins
       and cfg = sample_env and st = 200
       and d = "JObj [(''access_token'', JStr ''A21AA'')]"]
    getPayPalAccessToken_outcome
    [where net = upstream_null and calls = "[]" and rt = placeholder_builtins
       and cfg = sample_env and st = 200 and d = JNull]
    getPayPalAccessToken_outcome
    [where net = upstream_down and calls = "[]" and rt = placeholder_builtins
       and cfg = sample_env and m = "''connect ECONNREFUSED''"]
  by (simp add: paypal_auth_rejected_def paypal_sandbox_def upstream_null_def upstream_down_def
        token_request_def ok_def nullish_def)

text \<open>The search for the approval link when no link has the relation \<^verbatim>\<open>approve\<close>.\<close>

lemma find_approve_none:
  assumes "\<forall>link \<in> set ls. property link ''rel'' \<noteq> JStr ''approve''"
  shows "(\<exists>e. find_approve ls = Inl e) \<or> find_approve ls = Inr JUndefined"
  using assms by (induction ls) (auto simp: get_def)

lemma find_approve_none_total:
  assumes "\<forall>link \<in> set ls. property link ''rel'' \<noteq> JStr ''approve''"
    and "\<forall>link \<in> set ls. \<not> nullish link"
  shows "find_approve ls = Inr JUndefined"
  using assms by (induction ls) (auto simp: get_def)

lemma approval_link_none:
  assumes "\<forall>ls. property d ''links'' = JArr ls \<longrightarrow>
             (\<forall>link \<in> set ls. property link ''rel'' \<noteq> JStr ''approve'')"
  shows "(\<exists>e. approval_link d = Inl e) \<or> approval_link d = Inr JUndefined"
proof (cases "property d ''links''")
  case (JArr ls)
  with assms find_approve_none [of ls] show ?thesis
    by (auto simp: approval_link_def get_def nullish_def)
qed (auto simp: approval_link_def get_def nullish_def)

lemma approval_link_none_total:
  assumes "property d ''links'' = JArr ls"
    and "\<forall>link \<in> set ls. property link ''rel'' \<noteq> JStr ''approve''"
    and "\<forall>link \<in> set ls. \<not> nullish link"
  shows "approval_link d = Inr JUndefined"
proof -
  from assms(1) have "\<not> nullish d"
    by (auto simp: nullish_def)
  with assms find_approve_none_total [of ls] show ?thesis
    by (simp add: approval_link_def get_def nullish_def)
qed

text \<open>
  C1. A request to \<^verbatim>\<open>POST /api/paypal/create-order\<close> passes the validation, the token is
  acquired, and the order call \<open>rq\<close> gets a response with a status in 200-299. If the
  payload has no \<^verbatim>\<open>links\<close> array with an entry whose \<^verbatim>\<open>rel\<close> is \<^verbatim>\<open>"approve"\<close> (the body is not
  JSON, \<^verbatim>\<open>links\<close> is missing or not an array, or no entry has that relation), the route
  answers 500 with the body \<^verbatim>\<open>{error: "Failed to create PayPal order", message}\<close>, never
  the success body; when \<^verbatim>\<open>links\<close> is an array without \<^verbatim>\<open>null\<close> entries the message is
  \<^verbatim>\<open>No approval URL found in PayPal response\<close>.
\<close>

theorem create_order_without_approve_link:
  assumes "\<not> nullish req_body"
    and "truthy (property req_body ''amount'')"
    and "truthy (property req_body ''returnUrl'')"
    and "truthy (property req_body ''cancelUrl'')"
    and "getPayPalAccessToken rt cfg net calls = (Inr accessToken, calls')"
    and "order_request rt cfg accessToken (property req_body ''amount'')
           (property req_body ''currency'') (property req_body ''returnUrl'')
           (property req_body ''cancelUrl'') = Inr rq"
    and "net calls' rq = Responds st payload"
    and "ok st"
    and "\<forall>d ls. payload = Parsed d \<and> property d ''links'' = JArr ls \<longrightarrow>
           (\<forall>link \<in> set ls. property link ''rel'' \<noteq> JStr ''approve'')"
  shows "\<exists>err. create_order rt cfg net calls req_body =
           (\<lparr>status = 500,
             json = JObj [(''error'', JStr ''Failed to create PayPal order''),
                          (''message'', JStr (message rt err))]\<rparr>, calls' @ [rq]) \<and>
           ((\<exists>d ls. payload = Parsed d \<and> property d ''links'' = JArr ls \<and>
                    (\<forall>link \<in> set ls. \<not> nullish link)) \<longrightarrow>
              err = Error ''No approval URL found in PayPal response'')"
proof (cases payload)
  case (NotJson m)
  with assms show ?thesis
    by (auto simp: create_order_def create_order_try_def fetch_json_def Let_def
          intro!: exI [of _ "BodyError m"])
next
  case (Parsed d)
  with assms(9) have none: "\<forall>ls. property d ''links'' = JArr ls \<longrightarrow>
      (\<forall>link \<in> set ls. property link ''rel'' \<noteq> JStr ''approve'')"
    by simp
  show ?thesis
  proof (cases "\<exists>ls. property d ''links'' = JArr ls \<and> (\<forall>link \<in> set ls. \<not> nullish link)")
    case True
    then obtain ls where "property d ''links'' = JArr ls" "\<forall>link \<in> set ls. \<not> nullish link"
      by blast
    with none have "approval_link d = Inr JUndefined"
      using approval_link_none_total [of d ls] by simp
    with assms Parsed show ?thesis
      by (auto simp: create_order_def create_order_try_def fetch_json_def Let_def
            intro!: exI [of _ "Error ''No approval URL found in PayPal response''"])
  next
    case False
    from approval_link_none [OF none]
    consider e where "approval_link d = Inl e" | "approval_link d = Inr JUndefined"
      by blast
    then show ?thesis
    proof cases
      case 1
      with assms Parsed False show ?thesis
        by (auto simp: create_order_def create_order_try_def fetch_json_def Let_def
              intro!: exI [of _ e])
    next
      case 2
      with assms Parsed False show ?thesis
        by (auto simp: create_order_def create_order_try_def fetch_json_def Let_def
              intro!: exI [of _ "Error ''No approval URL found in PayPal response''"])
    qed
  qed
qed

theorem create_order_without_approve_link_witness:
  "create_order placeholder_builtins sample_env paypal_no_approve []
       (JObj [(''amount'', JStr ''10.00''), (''returnUrl'', JStr ''https://x''),
              (''cancelUrl'', JStr ''https://y'')]) =
     (\<lparr>status = 500,
       json = JObj [(''error'', JStr ''Failed to create PayPal order''),
                    (''message'', JStr ''No approval URL found in PayPal response'')]\<rparr>,
      [token_request placeholder_builtins sample_env,
       projr (order_request placeholder_builtins sample_env (JStr ''A21AA'') (JStr ''10.00'')
                JUndefined (JStr ''https://x'') (JStr ''https://y''))])"
  using create_order_without_approve_link
    [where req_body = "JObj [(''amount'', JStr ''10.00''), (''returnUrl'', JStr ''https://x''),
                             (''cancelUrl'', JStr ''https://y'')]"
       and rt = placeholder_builtins and cfg = sample_env and net = paypal_no_approve
       and calls = "[]" and accessToken = "JStr ''A21AA''"
       and calls' = "[token_request placeholder_builtins sample_env]"
       and rq = "projr (order_request placeholder_builtins sample_env (JStr ''A21AA'')
                   (JStr ''10.00'') JUndefined (JStr ''https://x'') (JStr ''https://y''))"
       and st = 201
       and payload = "Parsed (JObj
            [(''id'', JStr ''5O190127TN''), (''status'', JStr ''CREATED''),
             (''links'', JArr
               [JObj [(''href'', JStr ''https://api.example/orders/5O190127TN''),
                      (''rel'', JStr ''self'')]])])"]
  by (simp add: getPayPalAccessToken_def fetch_json_def paypal_no_approve_def token_request_def
        order_request_def toString_call_def ok_def get_def nullish_def)

section \<open>The order of the calls in the delegated-order routes\<close>

text \<open>A provider call that is built carries the token it was built from.\<close>

lemma bearer_of_order_request:
  assumes "order_request rt cfg tok amount currency returnUrl cancelUrl = Inr rq"
  shows "\<exists>bearer. ToString (numberToString rt) tok = Inr bearer \<and>
           map_of (headers rq) ''Authorization'' = Some (''Bearer '' @ bearer)"
  using assms by (auto simp: order_request_def split: sum.splits)

lemma bearer_of_capture_request:
  assumes "capture_request rt cfg tok orderId = Inr rq"
  shows "\<exists>bearer. ToString (numberToString rt) tok = Inr bearer \<and>
           map_of (headers rq) ''Authorization'' = Some (''Bearer '' @ bearer)"
  using assms by (auto simp: capture_request_def split: sum.splits)

lemma bearer_of_order_detail_request:
  assumes "order_detail_request rt cfg tok orderId = Inr rq"
  shows "\<exists>bearer. ToString (numberToString rt) tok = Inr bearer \<and>
           map_of (headers rq) ''Authorization'' = Some (''Bearer '' @ bearer)"
  using assms by (auto simp: order_detail_request_def split: sum.splits)

text \<open>The calls each route adds once its validation has passed.\<close>

lemma create_order_calls:
  assumes "\<not> nullish b" "truthy (property b ''amount'')" "truthy (property b ''returnUrl'')"
    "truthy (property b ''cancelUrl'')"
  shows "snd (create_order rt cfg net calls b) = calls @ [token_request rt cfg] \<or>
     (\<exists>tok rq. fst (getPayPalAccessToken rt cfg net calls) = Inr tok \<and>
        order_request rt cfg tok (property b ''amount'') (property b ''currency'')
          (property b ''returnUrl'') (property b ''cancelUrl'') = Inr rq \<and>
        snd (create_order rt cfg net calls b) = calls @ [token_request rt cfg, rq])"
proof (cases "getPayPalAccessToken rt cfg net calls")
  case (Pair r calls1)
  with getPayPalAccessToken_calls [of rt cfg net calls]
  have c1: "calls1 = calls @ [token_request rt cfg]" by simp
  show ?thesis
  proof (cases r)
    case (Inl e)
    with Pair c1 assms show ?thesis
      by (simp add: create_order_def create_order_try_def Let_def)
  next
    case (Inr tok)
    show ?thesis
    proof (cases "order_request rt cfg tok (property b ''amount'') (property b ''currency'')
          (property b ''returnUrl'') (property b ''cancelUrl'')")
      case (Inl e)
      with Pair Inr c1 assms show ?thesis
        by (simp add: create_order_def create_order_try_def Let_def)
    next
      case rq: (Inr rq)
      have "snd (create_order rt cfg net calls b) = snd (fetch_json net calls1 rq)"
        using Pair Inr rq assms
        by (simp add: create_order_def create_order_try_def Let_def
              split: prod.splits sum.splits)
      with fetch_json_calls [of net calls1 rq] c1 Pair Inr rq show ?thesis
        by simp
    qed
  qed
qed

lemma capture_order_calls:
  assumes "\<not> nullish b" "truthy (property b ''orderId'')"
  shows "snd (capture_order rt cfg net calls b) = calls @ [token_request rt cfg] \<or>
     (\<exists>tok rq. fst (getPayPalAccessToken rt cfg net calls) = Inr tok \<and>
        capture_request rt cfg tok (property b ''orderId'') = Inr rq \<and>
        snd (capture_order rt cfg net calls b) = calls @ [token_request rt cfg, rq])"
proof (cases "getPayPalAccessToken rt cfg net calls")
  case (Pair r calls1)
  with getPayPalAccessToken_calls [of rt cfg net calls]
  have c1: "calls1 = calls @ [token_request rt cfg]" by simp
  show ?thesis
  proof (cases r)
    case (Inl e)
    with Pair c1 assms show ?thesis
      by (simp add: capture_order_def capture_order_try_def get_def)
  next
    case (Inr tok)
    show ?thesis
    proof (cases "capture_request rt cfg tok (property b ''orderId'')")
      case (Inl e)
      with Pair Inr c1 assms show ?thesis
        by (simp add: capture_order_def capture_order_try_def get_def)
    next
      case rq: (Inr rq)
      have "snd (capture_order rt cfg net calls b) = snd (fetch_json net calls1 rq)"
        using Pair Inr rq assms
        by (simp add: capture_order_def capture_order_try_def get_def
              split: prod.splits sum.splits)
      with fetch_json_calls [of net calls1 rq] c1 Pair Inr rq show ?thesis
        by simp
    qed
  qed
qed

lemma paypal_verify_calls:
  "snd (paypal_verify rt cfg net calls orderId) = calls @ [token_request rt cfg] \<or>
     (\<exists>tok rq. fst (getPayPalAccessToken rt cfg net calls) = Inr tok \<and>
        order_detail_request rt cfg tok orderId = Inr rq \<and>
        snd (paypal_verify rt cfg net calls orderId) = calls @ [token_request rt cfg, rq])"
proof (cases "getPayPalAccessToken rt cfg net calls")
  case (Pair r calls1)
  with getPayPalAccessToken_calls [of rt cfg net calls]
  have c1: "calls1 = calls @ [token_request rt cfg]" by simp
  show ?thesis
  proof (cases r)
    case (Inl e)
    with Pair c1 show ?thesis
      by (simp add: paypal_verify_def paypal_verify_try_def)
  next
    case (Inr tok)
    show ?thesis
    proof (cases "order_detail_request rt cfg tok orderId")
      case (Inl e)
      with Pair Inr c1 show ?thesis
        by (simp add: paypal_verify_def paypal_verify_try_def)
    next
      case rq: (Inr rq)
      have "snd (paypal_verify rt cfg net calls orderId) = snd (fetch_json net calls1 rq)"
        using Pair Inr rq
        by (simp add: paypal_verify_def paypal_verify_try_def
              split: prod.splits sum.splits)
      with fetch_json_calls [of net calls1 rq] c1 Pair Inr rq show ?thesis
        by simp
    qed
  qed
qed

text \<open>
  C8. An invocation of \<^verbatim>\<open>create-order\<close> or \<^verbatim>\<open>capture-order\<close> that passes its validation, and
  every invocation of \<^verbatim>\<open>GET /api/paypal/verify/:orderId\<close>, adds the token exchange as its
  first call, whatever calls were made before it (\<open>calls\<close> is arbitrary: a token obtained
  earlier is not reused, and the routes keep no state). It adds at most one more call,
  the provider call, which comes after the exchange, is built from the token this
  exchange returned and carries it in its \<^verbatim>\<open>Authorization\<close> header.
\<close>

theorem token_exchange_precedes_provider_call:
  "(\<not> nullish req_body \<and> truthy (property req_body ''amount'') \<and>
    truthy (property req_body ''returnUrl'') \<and> truthy (property req_body ''cancelUrl'') \<longrightarrow>
      snd (create_order rt cfg net calls req_body) = calls @ [token_request rt cfg] \<or>
      (\<exists>accessToken rq bearer.
          fst (getPayPalAccessToken rt cfg net calls) = Inr accessToken \<and>
          order_request rt cfg accessToken (property req_body ''amount'')
            (property req_body ''currency'') (property req_body ''returnUrl'')
            (property req_body ''cancelUrl'') = Inr rq \<and>
          ToString (numberToString rt) accessToken = Inr bearer \<and>
          map_of (headers rq) ''Authorization'' = Some (''Bearer '' @ bearer) \<and>
          snd (create_order rt cfg net calls req_body) = calls @ [token_request rt cfg, rq])) \<and>
   (\<not> nullish req_body \<and> truthy (property req_body ''orderId'') \<longrightarrow>
      snd (capture_order rt cfg net calls req_body) = calls @ [token_request rt cfg] \<or>
      (\<exists>accessToken rq bearer.
          fst (getPayPalAccessToken rt cfg net calls) = Inr accessToken \<and>
          capture_request rt cfg accessToken (property req_body ''orderId'') = Inr rq \<and>
          ToString (numberToString rt) accessToken = Inr bearer \<and>
          map_of (headers rq) ''Authorization'' = Some (''Bearer '' @ bearer) \<and>
          snd (capture_order rt cfg net calls req_body) = calls @ [token_request rt cfg, rq])) \<and>
   (snd (paypal_verify rt cfg net calls orderId) = calls @ [token_request rt cfg] \<or>
      (\<exists>accessToken rq bearer.
          fst (getPayPalAccessToken rt cfg net calls) = Inr accessToken \<and>
          order_detail_request rt cfg accessToken orderId = Inr rq \<and>
          ToString (numberToString rt) accessToken = Inr bearer \<and>
          map_of (headers rq) ''Authorization'' = Some (''Bearer '' @ bearer) \<and>
          snd (paypal_verify rt cfg net calls orderId) = calls @ [token_request rt cfg, rq]))"
proof (intro conjI impI)
  assume "\<not> nullish req_body \<and> truthy (property req_body ''amount'') \<and>
    truthy (property req_body ''returnUrl'') \<and> truthy (property req_body ''cancelUrl'')"
  then show "snd (create_order rt cfg net calls req_body) = calls @ [token_request rt cfg] \<or>
      (\<exists>accessToken rq bearer.
          fst (getPayPalAccessToken rt cfg net calls) = Inr accessToken \<and>
          order_request rt cfg accessToken (property req_body ''amount'')
            (property req_body ''currency'') (property req_body ''returnUrl'')
            (property req_body ''cancelUrl'') = Inr rq \<and>
          ToString (numberToString rt) accessToken = Inr bearer \<and>
          map_of (headers rq) ''Authorization'' = Some (''Bearer '' @ bearer) \<and>
          snd (create_order rt cfg net calls req_body) = calls @ [token_request rt cfg, rq])"
    using create_order_calls [of req_body rt cfg net calls] bearer_of_order_request [of rt cfg]
    by blast
next
  assume "\<not> nullish req_body \<and> truthy (property req_body ''orderId'')"
  then show "snd (capture_order rt cfg net calls req_body) = calls @ [token_request rt cfg] \<or>
      (\<exists>accessToken rq bearer.
          fst (getPayPalAccessToken rt cfg net calls) = Inr accessToken \<and>
          capture_request rt cfg accessToken (property req_body ''orderId'') = Inr rq \<and>
          ToString (numberToString rt) accessToken = Inr bearer \<and>
          map_of (headers rq) ''Authorization'' = Some (''Bearer '' @ bearer) \<and>
          snd (capture_order rt cfg net calls req_body) = calls @ [token_request rt cfg, rq])"
    using capture_order_calls [of req_body rt cfg net calls] bearer_of_capture_request [of rt cfg]
    by blast
next
  show "snd (paypal_verify rt cfg net calls orderId) = calls @ [token_request rt cfg] \<or>
      (\<exists>accessToken rq bearer.
          fst (getPayPalAccessToken rt cfg net calls) = Inr accessToken \<and>
          order_detail_request rt cfg accessToken orderId = Inr rq \<and>
          ToString (numberToString rt) accessToken = Inr bearer \<and>
          map_of (headers rq) ''Authorization'' = Some (''Bearer '' @ bearer) \<and>
          snd (paypal_verify rt cfg net calls orderId) = calls @ [token_request rt cfg, rq])"
    using paypal_verify_calls [of rt cfg net calls orderId]
      bearer_of_order_detail_request [of rt cfg]
    by blast
qed

text \<open>
  A create-order followed by a capture of the order: the token is exchanged twice, each
  time before the provider call.
\<close>

theorem token_exchange_precedes_provider_call_witness:
  "map url (snd (capture_order placeholder_builtins sample_env paypal_sandbox
       (snd (create_order placeholder_builtins sample_env paypal_sandbox []
          (JObj [(''amount'', JStr ''10.00''), (''returnUrl'', JStr ''https://x''),
                 (''cancelUrl'', JStr ''https://y'')])))
       (JObj [(''orderId'', JStr ''5O190127TN'')]))) =
     [''https://api-m.sandbox.paypal.com/v1/oauth2/token'',
      ''https://api-m.sandbox.paypal.com/v2/checkout/orders'',
      ''https://api-m.sandbox.paypal.com/v1/oauth2/token'',
      ''https://api-m.sandbox.paypal.com/v2/checkout/orders/5O190127TN/capture'']"
  using token_exchange_precedes_provider_call
    [where req_body = "JObj [(''amount'', JStr ''10.00''), (''returnUrl'', JStr ''https://x''),
                             (''cancelUrl'', JStr ''https://y'')]"
       and rt = placeholder_builtins and cfg = sample_env and net = paypal_sandbox
       and calls = "[]", THEN conjunct1]
    token_exchange_precedes_provider_call
    [where req_body = "JObj [(''orderId'', JStr ''5O190127TN'')]"
       and rt = placeholder_builtins and cfg = sample_env and net = paypal_sandbox
       and calls = "snd (create_order placeholder_builtins sample_env paypal_sandbox []
          (JObj [(''amount'', JStr ''10.00''), (''returnUrl'', JStr ''https://x''),
                 (''cancelUrl'', JStr ''https://y'')]))", THEN conjunct2, THEN conjunct1]
  by (simp add: create_order_def create_order_try_def capture_order_def capture_order_try_def
        getPayPalAccessToken_def fetch_json_def capture_request_def
          paypal_sandbox_def token_request_def order_request_def toString_call_def
          approval_link_def ok_def get_def nullish_def PAYPAL_BASE_URL_def sample_env_def
          placeholder_builtins_def Let_def)

end
